theory Spec2Isabelle
  imports Main "HOL-Library.Sublist"
begin

section \<open>Go primitives used by table_command.go\<close>

text \<open>
  Go strings are byte sequences; \<^typ>\<open>string\<close> is a list of 8-bit characters.
  The only run-time failure the file can reach is a method call through a nil
  interface value, which panics.  Results of code that calls an interface method
  are therefore \<open>panic + string\<close>, with \<open>Inl\<close> the panic.
\<close>

datatype panic = NilPointerDereference

text \<open>
  \<open>strings.Join(elems, sep)\<close>: nothing for no element, the element itself for one
  element, otherwise the elements with \<open>sep\<close> between each two neighbours.
\<close>

fun Join :: "string list \<Rightarrow> string \<Rightarrow> string" where
  "Join [] sep = []"
| "Join [e] sep = e"
| "Join (e # e' # es) sep = e @ sep @ Join (e' # es) sep"

text \<open>
  The interface \<open>columnType\<close> is declared outside table_command.go; the file uses
  one method of it, \<open>buildRow() string\<close>.  A value of the interface is \<open>None\<close> for
  nil and \<open>Some v\<close> for a concrete value \<open>v\<close> of a type \<open>'c\<close>; the implementation
  of the method on concrete values is the parameter \<open>impl\<close>.  Calling the method
  on nil panics.
\<close>

definition buildRow :: "('c \<Rightarrow> string) \<Rightarrow> 'c option \<Rightarrow> panic + string" where
  "buildRow impl col = (case col of None \<Rightarrow> Inl NilPointerDereference | Some v \<Rightarrow> Inr (impl v))"

section \<open>The commands\<close>

record 'c AddColumnCommand =
  Name :: string
  Column :: "'c option"
  After :: string
  First :: bool

record RenameColumnCommand =
  Old :: string
  New :: string

record 'c ModifyColumnCommand =
  Name :: string
  Column :: "'c option"

record 'c ChangeColumnCommand =
  From :: string
  To :: string
  Column :: "'c option"

type_synonym DropColumnCommand = string

record AddIndexCommand =
  Name :: string
  Columns :: "string list"

type_synonym DropIndexCommand = string

text \<open>
  \<open>Foreign\<close> is a type declared outside table_command.go, used through its method
  \<open>render() string\<close>; it is the type parameter \<open>'f\<close>, and the method is the
  parameter \<open>render\<close> of the functions below.
\<close>

record 'f AddForeignCommand =
  Foreign :: 'f

type_synonym DropForeignCommand = string

record AddUniqueIndexCommand =
  Key :: string
  Columns :: "string list"

type_synonym AddPrimaryIndexCommand = string

type_synonym DropPrimaryIndexCommand = unit

text \<open>
  The values of the interface \<open>command\<close>: one constructor for each type of the file
  that has a \<open>toSQL\<close> method.  The elements of a \<open>TableCommands\<close> slice are such
  values; a nil element, on which the method call would panic, is not a command of any
  variant and is not part of the model.
\<close>

datatype ('c, 'f) command =
    AddColumn "'c AddColumnCommand"
  | RenameColumn RenameColumnCommand
  | ModifyColumn "'c ModifyColumnCommand"
  | ChangeColumn "'c ChangeColumnCommand"
  | DropColumn DropColumnCommand
  | AddIndex AddIndexCommand
  | DropIndex DropIndexCommand
  | AddForeign "'f AddForeignCommand"
  | DropForeign DropForeignCommand
  | AddUniqueIndex AddUniqueIndexCommand
  | AddPrimaryIndex AddPrimaryIndexCommand
  | DropPrimaryIndex DropPrimaryIndexCommand

section \<open>The toSQL methods\<close>

definition AddColumnCommand_toSQL :: "('c \<Rightarrow> string) \<Rightarrow> 'c AddColumnCommand \<Rightarrow> panic + string" where
  "AddColumnCommand_toSQL impl c =
    (if AddColumnCommand.Column c = None then Inr ''''
     else case buildRow impl (AddColumnCommand.Column c) of
       Inl p \<Rightarrow> Inl p
     | Inr definition \<Rightarrow>
         if AddColumnCommand.Name c = '''' \<or> definition = '''' then Inr ''''
         else
           let sql = ''ADD COLUMN `'' @ AddColumnCommand.Name c @ ''` '' @ definition in
           if After c \<noteq> '''' then Inr (sql @ '' AFTER '' @ After c)
           else if First c then Inr (sql @ '' FIRST'')
           else Inr sql)"

definition RenameColumnCommand_toSQL :: "RenameColumnCommand \<Rightarrow> string" where
  "RenameColumnCommand_toSQL c =
    (if Old c = '''' \<or> New c = '''' then ''''
     else ''RENAME COLUMN `'' @ Old c @ ''` TO `'' @ New c @ ''`'')"

definition ModifyColumnCommand_toSQL :: "('c \<Rightarrow> string) \<Rightarrow> 'c ModifyColumnCommand \<Rightarrow> panic + string" where
  "ModifyColumnCommand_toSQL impl c =
    (if ModifyColumnCommand.Column c = None then Inr ''''
     else case buildRow impl (ModifyColumnCommand.Column c) of
       Inl p \<Rightarrow> Inl p
     | Inr definition \<Rightarrow>
         if ModifyColumnCommand.Name c = '''' \<or> definition = '''' then Inr ''''
         else Inr (''MODIFY `'' @ ModifyColumnCommand.Name c @ ''` '' @ definition))"

definition ChangeColumnCommand_toSQL :: "('c \<Rightarrow> string) \<Rightarrow> 'c ChangeColumnCommand \<Rightarrow> panic + string" where
  "ChangeColumnCommand_toSQL impl c =
    (if ChangeColumnCommand.Column c = None then Inr ''''
     else case buildRow impl (ChangeColumnCommand.Column c) of
       Inl p \<Rightarrow> Inl p
     | Inr definition \<Rightarrow>
         if From c = '''' \<or> To c = '''' \<or> definition = '''' then Inr ''''
         else case buildRow impl (ChangeColumnCommand.Column c) of
           Inl p \<Rightarrow> Inl p
         | Inr row \<Rightarrow> Inr (''CHANGE `'' @ From c @ ''` `'' @ To c @ ''` '' @ row))"

definition DropColumnCommand_toSQL :: "DropColumnCommand \<Rightarrow> string" where
  "DropColumnCommand_toSQL c =
    (if c = '''' then '''' else ''DROP COLUMN `'' @ c @ ''`'')"

definition AddIndexCommand_toSQL :: "AddIndexCommand \<Rightarrow> string" where
  "AddIndexCommand_toSQL c =
    (if AddIndexCommand.Name c = '''' \<or> length (AddIndexCommand.Columns c) = 0 then ''''
     else ''ADD KEY `'' @ AddIndexCommand.Name c @ ''` (`''
            @ Join (AddIndexCommand.Columns c) ''`, `'' @ ''`)'')"

definition DropIndexCommand_toSQL :: "DropIndexCommand \<Rightarrow> string" where
  "DropIndexCommand_toSQL c =
    (if c = '''' then '''' else ''DROP KEY `'' @ c @ ''`'')"

definition AddForeignCommand_toSQL :: "('f \<Rightarrow> string) \<Rightarrow> 'f AddForeignCommand \<Rightarrow> string" where
  "AddForeignCommand_toSQL render c =
    (if render (Foreign c) = '''' then ''''
     else ''ADD '' @ render (Foreign c))"

definition DropForeignCommand_toSQL :: "DropForeignCommand \<Rightarrow> string" where
  "DropForeignCommand_toSQL c =
    (if c = '''' then '''' else ''DROP FOREIGN KEY `'' @ c @ ''`'')"

definition AddUniqueIndexCommand_toSQL :: "AddUniqueIndexCommand \<Rightarrow> string" where
  "AddUniqueIndexCommand_toSQL c =
    (if Key c = '''' \<or> length (AddUniqueIndexCommand.Columns c) = 0 then ''''
     else ''ADD UNIQUE KEY `'' @ Key c @ ''` (`''
            @ Join (AddUniqueIndexCommand.Columns c) ''`, `'' @ ''`)'')"

definition AddPrimaryIndexCommand_toSQL :: "AddPrimaryIndexCommand \<Rightarrow> string" where
  "AddPrimaryIndexCommand_toSQL c =
    (if c = '''' then '''' else ''ADD PRIMARY KEY (`'' @ c @ ''`)'')"

definition DropPrimaryIndexCommand_toSQL :: "DropPrimaryIndexCommand \<Rightarrow> string" where
  "DropPrimaryIndexCommand_toSQL c = ''DROP PRIMARY KEY''"

text \<open>The call \<open>c.toSQL()\<close> on a value of the interface \<open>command\<close>.\<close>

fun toSQL :: "('c \<Rightarrow> string) \<Rightarrow> ('f \<Rightarrow> string) \<Rightarrow> ('c, 'f) command \<Rightarrow> panic + string" where
  "toSQL impl render (AddColumn c) = AddColumnCommand_toSQL impl c"
| "toSQL impl render (RenameColumn c) = Inr (RenameColumnCommand_toSQL c)"
| "toSQL impl render (ModifyColumn c) = ModifyColumnCommand_toSQL impl c"
| "toSQL impl render (ChangeColumn c) = ChangeColumnCommand_toSQL impl c"
| "toSQL impl render (DropColumn c) = Inr (DropColumnCommand_toSQL c)"
| "toSQL impl render (AddIndex c) = Inr (AddIndexCommand_toSQL c)"
| "toSQL impl render (DropIndex c) = Inr (DropIndexCommand_toSQL c)"
| "toSQL impl render (AddForeign c) = Inr (AddForeignCommand_toSQL render c)"
| "toSQL impl render (DropForeign c) = Inr (DropForeignCommand_toSQL c)"
| "toSQL impl render (AddUniqueIndex c) = Inr (AddUniqueIndexCommand_toSQL c)"
| "toSQL impl render (AddPrimaryIndex c) = Inr (AddPrimaryIndexCommand_toSQL c)"
| "toSQL impl render (DropPrimaryIndex c) = Inr (DropPrimaryIndexCommand_toSQL c)"

section \<open>TableCommands\<close>

text \<open>
  The loop of \<open>TableCommands.toSQL\<close>: \<open>rows\<close> is the slice built so far, and each
  command's fragment is appended to it, whatever the fragment is.
\<close>

fun toSQL_rows :: "('c \<Rightarrow> string) \<Rightarrow> ('f \<Rightarrow> string) \<Rightarrow> ('c, 'f) command list \<Rightarrow> string list
    \<Rightarrow> panic + string list" where
  "toSQL_rows impl render [] rows = Inr rows"
| "toSQL_rows impl render (c # tc) rows =
    (case toSQL impl render c of
       Inl p \<Rightarrow> Inl p
     | Inr s \<Rightarrow> toSQL_rows impl render tc (rows @ [s]))"

definition TableCommands_toSQL :: "('c \<Rightarrow> string) \<Rightarrow> ('f \<Rightarrow> string) \<Rightarrow> ('c, 'f) command list
    \<Rightarrow> panic + string" where
  "TableCommands_toSQL impl render tc =
    (case toSQL_rows impl render tc [] of
       Inl p \<Rightarrow> Inl p
     | Inr rows \<Rightarrow> Inr (Join rows '', ''))"

section \<open>The specification's notions\<close>

text \<open>
  The required fields of each variant, after the specification's table of variants, and
  what it calls a missing one: the empty string for an identifier, nil for the column
  definition, the empty sequence for a column list.  The foreign-key descriptor of Add
  Foreign Key is none of the three kinds, and Drop Primary Key has no field.
\<close>

fun required_field_missing :: "('c, 'f) command \<Rightarrow> bool" where
  "required_field_missing (AddColumn c) =
     (AddColumnCommand.Name c = '''' \<or> AddColumnCommand.Column c = None)"
| "required_field_missing (RenameColumn c) = (Old c = '''' \<or> New c = '''')"
| "required_field_missing (ModifyColumn c) =
     (ModifyColumnCommand.Name c = '''' \<or> ModifyColumnCommand.Column c = None)"
| "required_field_missing (ChangeColumn c) =
     (From c = '''' \<or> To c = '''' \<or> ChangeColumnCommand.Column c = None)"
| "required_field_missing (DropColumn c) = (c = '''')"
| "required_field_missing (AddIndex c) =
     (AddIndexCommand.Name c = '''' \<or> AddIndexCommand.Columns c = [])"
| "required_field_missing (DropIndex c) = (c = '''')"
| "required_field_missing (AddForeign c) = False"
| "required_field_missing (DropForeign c) = (c = '''')"
| "required_field_missing (AddUniqueIndex c) =
     (Key c = '''' \<or> AddUniqueIndexCommand.Columns c = [])"
| "required_field_missing (AddPrimaryIndex c) = (c = '''')"
| "required_field_missing (DropPrimaryIndex c) = False"

text \<open>
  The renderer as the specification words it: every command is rendered, the commands whose
  fragment is empty are left out, and the remaining fragments are joined with a comma and a
  space.
\<close>

definition spec_render :: "('c \<Rightarrow> string) \<Rightarrow> ('f \<Rightarrow> string) \<Rightarrow> ('c, 'f) command list
    \<Rightarrow> panic + string" where
  "spec_render impl render tc =
    (case toSQL_rows impl render tc [] of
       Inl p \<Rightarrow> Inl p
     | Inr rows \<Rightarrow> Inr (Join (filter (\<lambda>s. s \<noteq> '''') rows) '', ''))"

text \<open>An identifier wrapped in backticks.\<close>

definition backticked :: "string \<Rightarrow> string" where
  "backticked s = ''`'' @ s @ ''`''"

section \<open>Basic facts\<close>

lemma AddColumnCommand_toSQL_Inr: "\<exists>s. AddColumnCommand_toSQL impl c = Inr s"
  by (cases "AddColumnCommand.Column c")
     (simp_all add: AddColumnCommand_toSQL_def buildRow_def Let_def)

lemma ModifyColumnCommand_toSQL_Inr: "\<exists>s. ModifyColumnCommand_toSQL impl c = Inr s"
  by (cases "ModifyColumnCommand.Column c")
     (simp_all add: ModifyColumnCommand_toSQL_def buildRow_def)

lemma ChangeColumnCommand_toSQL_Inr: "\<exists>s. ChangeColumnCommand_toSQL impl c = Inr s"
  by (cases "ChangeColumnCommand.Column c")
     (simp_all add: ChangeColumnCommand_toSQL_def buildRow_def)

lemma toSQL_Inr: "\<exists>s. toSQL impl render c = Inr s"
  by (cases c)
     (simp_all add: AddColumnCommand_toSQL_Inr ModifyColumnCommand_toSQL_Inr
        ChangeColumnCommand_toSQL_Inr)

lemma toSQL_rows_map:
  "toSQL_rows impl render tc rows = Inr (rows @ map (\<lambda>c. projr (toSQL impl render c)) tc)"
proof (induction tc arbitrary: rows)
  case Nil
  show ?case by simp
next
  case (Cons c tc)
  obtain s where s: "toSQL impl render c = Inr s"
    using toSQL_Inr by blast
  show ?case by (simp add: s Cons.IH)
qed

lemma TableCommands_toSQL_map:
  "TableCommands_toSQL impl render tc = Inr (Join (map (\<lambda>c. projr (toSQL impl render c)) tc) '', '')"
  by (simp add: TableCommands_toSQL_def toSQL_rows_map)

lemma Join_append:
  "xs \<noteq> [] \<Longrightarrow> ys \<noteq> [] \<Longrightarrow> Join (xs @ ys) sep = Join xs sep @ sep @ Join ys sep"
proof (induction xs sep rule: Join.induct)
  case (1 sep)
  then show ?case by simp
next
  case (2 e sep)
  then show ?case by (cases ys) simp_all
next
  case (3 e e' es sep)
  then show ?case by simp
qed

lemma Join_backticked:
  "cols \<noteq> [] \<Longrightarrow> ''`'' @ Join cols ''`, `'' @ ''`'' = Join (map backticked cols) '', ''"
  by (induction cols "''`, `''" rule: Join.induct) (simp_all add: backticked_def)

lemma filter_nonempty_id: "'''' \<notin> set rows \<Longrightarrow> filter (\<lambda>s. s \<noteq> '''') rows = rows"
  by (induction rows) auto

lemma prefix_without_head:
  "c \<notin> set xs \<Longrightarrow> prefix xs (c # zs) \<Longrightarrow> xs = []"
  by (cases xs) simp_all

lemma sublist_split_at:
  assumes "c \<notin> set xs"
  shows "sublist xs (ys @ c # zs) \<longleftrightarrow> sublist xs ys \<or> sublist xs zs"
proof
  assume "sublist xs (ys @ c # zs)"
  then consider "sublist xs ys" | "sublist xs (c # zs)"
    | xs1 xs2 where "xs = xs1 @ xs2" "suffix xs1 ys" "prefix xs2 (c # zs)"
    unfolding sublist_append by blast
  then show "sublist xs ys \<or> sublist xs zs"
  proof cases
    case 1
    then show ?thesis by simp
  next
    case 2
    then have "prefix xs (c # zs) \<or> sublist xs zs" by (simp add: sublist_Cons_right)
    then show ?thesis using prefix_without_head [OF assms] by auto
  next
    case 3
    from 3(1) assms have "c \<notin> set xs2" by simp
    then have "xs2 = []" using 3(3) by (rule prefix_without_head)
    then show ?thesis using 3(1,2) by auto
  qed
next
  assume "sublist xs ys \<or> sublist xs zs"
  then show "sublist xs (ys @ c # zs)"
    by (auto simp add: sublist_append sublist_Cons_right)
qed

lemma not_sublist_segment:
  "c \<notin> set xs \<Longrightarrow> \<not> sublist xs ys \<Longrightarrow> \<not> sublist xs zs \<Longrightarrow> \<not> sublist xs (ys @ c # zs)"
  by (simp add: sublist_split_at)

lemma FIRST_not_in_keywords:
  "\<not> sublist ''FIRST'' ''AFTER''" "\<not> sublist ''FIRST'' ''COLUMN''"
  "\<not> sublist ''FIRST'' ''ADD''" "\<not> sublist ''FIRST'' ''''"
  by code_simp+

lemma FIRST_delimiters:
  "CHR '' '' \<notin> set ''FIRST''" "CHR 0x60 \<notin> set ''FIRST''"
  by simp_all

lemma no_FIRST_in_AFTER_form:
  assumes n: "\<not> sublist ''FIRST'' n" and d: "\<not> sublist ''FIRST'' d" and a: "\<not> sublist ''FIRST'' a"
  shows "\<not> sublist '' FIRST'' (''ADD COLUMN `'' @ n @ ''` '' @ d @ '' AFTER '' @ a)"
proof -
  note sp = not_sublist_segment [OF FIRST_delimiters(1)]
  note bt = not_sublist_segment [OF FIRST_delimiters(2)]
  have "\<not> sublist ''FIRST'' (''AFTER'' @ CHR '' '' # a)"
    by (rule sp [OF FIRST_not_in_keywords(1) a])
  then have "\<not> sublist ''FIRST'' (d @ CHR '' '' # ''AFTER'' @ CHR '' '' # a)"
    by (rule sp [OF d])
  then have "\<not> sublist ''FIRST'' ('''' @ CHR '' '' # d @ CHR '' '' # ''AFTER'' @ CHR '' '' # a)"
    by (rule sp [OF FIRST_not_in_keywords(4)])
  then have "\<not> sublist ''FIRST'' (n @ CHR 0x60 # '''' @ CHR '' '' # d @ CHR '' '' # ''AFTER'' @ CHR '' '' # a)"
    by (rule bt [OF n])
  then have "\<not> sublist ''FIRST''
      ('''' @ CHR 0x60 # n @ CHR 0x60 # '''' @ CHR '' '' # d @ CHR '' '' # ''AFTER'' @ CHR '' '' # a)"
    by (rule bt [OF FIRST_not_in_keywords(4)])
  then have "\<not> sublist ''FIRST''
      (''COLUMN'' @ CHR '' '' # '''' @ CHR 0x60 # n @ CHR 0x60 # '''' @ CHR '' '' # d
         @ CHR '' '' # ''AFTER'' @ CHR '' '' # a)"
    by (rule sp [OF FIRST_not_in_keywords(2)])
  then have "\<not> sublist ''FIRST''
      (''ADD'' @ CHR '' '' # ''COLUMN'' @ CHR '' '' # '''' @ CHR 0x60 # n @ CHR 0x60 # '''' @ CHR '' '' # d
         @ CHR '' '' # ''AFTER'' @ CHR '' '' # a)"
    by (rule sp [OF FIRST_not_in_keywords(3)])
  then have w: "\<not> sublist ''FIRST'' (''ADD COLUMN `'' @ n @ ''` '' @ d @ '' AFTER '' @ a)"
    by simp
  show ?thesis
  proof
    assume "sublist '' FIRST'' (''ADD COLUMN `'' @ n @ ''` '' @ d @ '' AFTER '' @ a)"
    then obtain ps ss where "''ADD COLUMN `'' @ n @ ''` '' @ d @ '' AFTER '' @ a = ps @ '' FIRST'' @ ss"
      unfolding sublist_def by blast
    then have "''ADD COLUMN `'' @ n @ ''` '' @ d @ '' AFTER '' @ a = (ps @ '' '') @ ''FIRST'' @ ss"
      by simp
    then have "sublist ''FIRST'' (''ADD COLUMN `'' @ n @ ''` '' @ d @ '' AFTER '' @ a)"
      unfolding sublist_def by blast
    with w show False by contradiction
  qed
qed

lemma example_without_FIRST:
  "\<not> sublist ''FIRST'' ''age''" "\<not> sublist ''FIRST'' ''INT NOT NULL''"
  "\<not> sublist ''FIRST'' ''name''"
  by code_simp+

lemma empty_column_backticks:
  "'''' \<in> set cols \<Longrightarrow> sublist ''``'' (''`'' @ Join cols ''`, `'' @ ''`'')"
proof (induction cols "''`, `''" rule: Join.induct)
  case 1
  then show ?case by simp
next
  case (2 e)
  then show ?case by simp
next
  case (3 e e' es)
  show ?case
  proof (cases "e = ''''")
    case True
    have "sublist ''``'' (''``'' @ '', `'' @ Join (e' # es) ''`, `'' @ ''`'')"
      by (rule sublist_append_rightI)
    then show ?thesis using True by simp
  next
    case False
    then have "'''' \<in> set (e' # es)" using 3(2) by auto
    then have "sublist ''``'' (''`'' @ Join (e' # es) ''`, `'' @ ''`'')" by (rule 3(1))
    then have "sublist ''``'' ((''`'' @ e @ ''`, '') @ (''`'' @ Join (e' # es) ''`, `'' @ ''`''))"
      using sublist_append by blast
    then show ?thesis by simp
  qed
qed


section \<open>Properties\<close>

text \<open>
  C1, as the code has it.  The renderer joins the fragments of all the commands of the list,
  in input order, with a comma and a space; a command whose fragment is empty is not left
  out, it contributes an empty segment.  When no command of the list renders empty, no
  segment is empty and the result is the one the specification describes.  On the list of
  an Add Column command without a name and the command Drop Index \<open>idx_x\<close>, the code
  returns the fragment of the second command with a comma and a space in front, where the
  specification has the fragment alone.
\<close>

theorem TableCommands_toSQL_joins_every_fragment:
  "\<exists>rows. list_all2 (\<lambda>c s. toSQL impl render c = Inr s) tc rows
     \<and> TableCommands_toSQL impl render tc = Inr (Join rows '', '')
     \<and> ((\<forall>c \<in> set tc. toSQL impl render c \<noteq> Inr '''') \<longrightarrow>
           '''' \<notin> set rows
         \<and> TableCommands_toSQL impl render tc = spec_render impl render tc)"
proof -
  let ?rows = "map (\<lambda>c. projr (toSQL impl render c)) tc"
  have each: "toSQL impl render c = Inr (projr (toSQL impl render c))" for c
    using toSQL_Inr [of impl render c] by auto
  have "list_all2 (\<lambda>c s. toSQL impl render c = Inr s) tc ?rows"
    using each by (simp add: list_all2_conv_all_nth)
  moreover have "TableCommands_toSQL impl render tc = Inr (Join ?rows '', '')"
    by (rule TableCommands_toSQL_map)
  moreover have ne: "'''' \<notin> set ?rows" if "\<forall>c \<in> set tc. toSQL impl render c \<noteq> Inr ''''"
  proof
    assume "'''' \<in> set ?rows"
    then obtain c where "c \<in> set tc" "projr (toSQL impl render c) = ''''"
      by auto
    then have "toSQL impl render c = Inr ''''"
      using each [of c] by simp
    then show False using that \<open>c \<in> set tc\<close> by blast
  qed
  moreover have "TableCommands_toSQL impl render tc = spec_render impl render tc"
    if "\<forall>c \<in> set tc. toSQL impl render c \<noteq> Inr ''''"
    using filter_nonempty_id [OF ne [OF that]]
    by (simp add: TableCommands_toSQL_def spec_render_def toSQL_rows_map)
  ultimately show ?thesis by blast
qed

theorem TableCommands_toSQL_joins_every_fragment_witness:
  "TableCommands_toSQL id id
     [AddIndex \<lparr>AddIndexCommand.Name = ''idx_age'', Columns = [''age'', ''name'']\<rparr>,
      DropIndex ''idx_x'' :: (string, string) command]
     = Inr ''ADD KEY `idx_age` (`age`, `name`), DROP KEY `idx_x`''
 \<and> spec_render id id
     [AddIndex \<lparr>AddIndexCommand.Name = ''idx_age'', Columns = [''age'', ''name'']\<rparr>,
      DropIndex ''idx_x'' :: (string, string) command]
     = Inr ''ADD KEY `idx_age` (`age`, `name`), DROP KEY `idx_x`''"
  using TableCommands_toSQL_joins_every_fragment [where impl = id and render = id
      and tc = "[AddIndex \<lparr>AddIndexCommand.Name = ''idx_age'', Columns = [''age'', ''name'']\<rparr>,
                 DropIndex ''idx_x'' :: (string, string) command]"]
  by (simp add: TableCommands_toSQL_def spec_render_def AddIndexCommand_toSQL_def
        DropIndexCommand_toSQL_def)

theorem TableCommands_toSQL_empty_segment_counterexample:
  "TableCommands_toSQL id id
     [AddColumn \<lparr>AddColumnCommand.Name = '''', Column = Some ''INT NOT NULL'', After = '''', First = False\<rparr>,
      DropIndex ''idx_x'' :: (string, string) command]
     = Inr '', DROP KEY `idx_x`''
 \<and> spec_render id id
     [AddColumn \<lparr>AddColumnCommand.Name = '''', Column = Some ''INT NOT NULL'', After = '''', First = False\<rparr>,
      DropIndex ''idx_x'' :: (string, string) command]
     = Inr ''DROP KEY `idx_x`''"
  by (simp add: TableCommands_toSQL_def spec_render_def AddColumnCommand_toSQL_def buildRow_def
        DropIndexCommand_toSQL_def)

text \<open>
  C2. A command of any variant with a required field missing (an empty identifier, a nil
  column definition, an empty column list) renders to the empty string.
\<close>

theorem missing_required_field_renders_empty:
  "required_field_missing c \<Longrightarrow> toSQL impl render c = Inr ''''"
  by (cases c)
     (auto simp add: AddColumnCommand_toSQL_def RenameColumnCommand_toSQL_def
        ModifyColumnCommand_toSQL_def ChangeColumnCommand_toSQL_def
        DropColumnCommand_toSQL_def AddIndexCommand_toSQL_def DropIndexCommand_toSQL_def
        DropForeignCommand_toSQL_def AddUniqueIndexCommand_toSQL_def
        AddPrimaryIndexCommand_toSQL_def buildRow_def split: option.splits)

theorem missing_required_field_renders_empty_witness:
  "required_field_missing
     (AddColumn \<lparr>AddColumnCommand.Name = ''age'', Column = None, After = ''name'', First = True\<rparr>
        :: (string, string) command)
 \<and> toSQL id id
     (AddColumn \<lparr>AddColumnCommand.Name = ''age'', Column = None, After = ''name'', First = True\<rparr>)
     = Inr ''''
 \<and> required_field_missing
     (AddUniqueIndex \<lparr>Key = ''uq'', Columns = []\<rparr> :: (string, string) command)
 \<and> toSQL id id (AddUniqueIndex \<lparr>Key = ''uq'', Columns = []\<rparr>) = Inr ''''
 \<and> required_field_missing
     (RenameColumn \<lparr>Old = ''nm'', New = ''''\<rparr> :: (string, string) command)
 \<and> toSQL id id (RenameColumn \<lparr>Old = ''nm'', New = ''''\<rparr>) = Inr ''''"
  using
    missing_required_field_renders_empty [where impl = id and render = id
      and c = "AddColumn \<lparr>AddColumnCommand.Name = ''age'', Column = None, After = ''name'', First = True\<rparr>
                 :: (string, string) command"]
    missing_required_field_renders_empty [where impl = id and render = id
      and c = "AddUniqueIndex \<lparr>Key = ''uq'', Columns = []\<rparr> :: (string, string) command"]
    missing_required_field_renders_empty [where impl = id and render = id
      and c = "RenameColumn \<lparr>Old = ''nm'', New = ''''\<rparr> :: (string, string) command"]
  by simp

text \<open>
  C3, as the code has it.  For a well-formed Add Column command (non-empty name, non-nil
  column definition with a non-empty row): when After is non-empty the output is the base
  \<open>ADD COLUMN `name` definition\<close> followed by \<open>AFTER\<close> and the After text, and it is
  the same for both values of the First flag, so the keyword \<open>FIRST\<close> is never appended;
  the output then contains \<open>FIRST\<close> after a space only if the text \<open>FIRST\<close> occurs in the
  name, the definition or After.  When After is empty and First is set, the output is the
  base followed by \<open>FIRST\<close>; when After is empty and First is not set, the output is the
  base.  With After equal to \<open>FIRST\<close> the output does contain \<open>FIRST\<close> after a space.
\<close>

theorem AddColumnCommand_toSQL_position:
  assumes "AddColumnCommand.Name c \<noteq> ''''"
    and "AddColumnCommand.Column c = Some col"
    and "impl col \<noteq> ''''"
  shows "(After c \<noteq> '''' \<longrightarrow>
            AddColumnCommand_toSQL impl c =
              Inr (''ADD COLUMN `'' @ AddColumnCommand.Name c @ ''` '' @ impl col
                     @ '' AFTER '' @ After c)
          \<and> AddColumnCommand_toSQL impl (c\<lparr>First := f\<rparr>) = AddColumnCommand_toSQL impl c
          \<and> (\<not> sublist ''FIRST'' (AddColumnCommand.Name c) \<and> \<not> sublist ''FIRST'' (impl col)
               \<and> \<not> sublist ''FIRST'' (After c) \<longrightarrow>
               (\<forall>out. AddColumnCommand_toSQL impl c = Inr out \<longrightarrow> \<not> sublist '' FIRST'' out)))
       \<and> (After c = '''' \<and> First c \<longrightarrow>
            AddColumnCommand_toSQL impl c =
              Inr (''ADD COLUMN `'' @ AddColumnCommand.Name c @ ''` '' @ impl col @ '' FIRST''))
       \<and> (After c = '''' \<and> \<not> First c \<longrightarrow>
            AddColumnCommand_toSQL impl c =
              Inr (''ADD COLUMN `'' @ AddColumnCommand.Name c @ ''` '' @ impl col))"
  using assms no_FIRST_in_AFTER_form [of "AddColumnCommand.Name c" "impl col" "After c"]
  by (simp add: AddColumnCommand_toSQL_def buildRow_def Let_def)

theorem AddColumnCommand_toSQL_position_witness:
  "AddColumnCommand_toSQL id
     \<lparr>AddColumnCommand.Name = ''age'', Column = Some ''INT NOT NULL'', After = ''name'', First = True\<rparr>
     = Inr ''ADD COLUMN `age` INT NOT NULL AFTER name''
 \<and> \<not> sublist '' FIRST'' ''ADD COLUMN `age` INT NOT NULL AFTER name''
 \<and> AddColumnCommand_toSQL id
     \<lparr>AddColumnCommand.Name = ''age'', Column = Some ''INT NOT NULL'', After = '''', First = True\<rparr>
     = Inr ''ADD COLUMN `age` INT NOT NULL FIRST''
 \<and> AddColumnCommand_toSQL id
     \<lparr>AddColumnCommand.Name = ''age'', Column = Some ''INT NOT NULL'', After = '''', First = False\<rparr>
     = Inr ''ADD COLUMN `age` INT NOT NULL''"
  using
    AddColumnCommand_toSQL_position [where impl = id and col = "''INT NOT NULL''" and f = False
      and c = "\<lparr>AddColumnCommand.Name = ''age'', Column = Some ''INT NOT NULL'', After = ''name'', First = True\<rparr>"]
    AddColumnCommand_toSQL_position [where impl = id and col = "''INT NOT NULL''" and f = False
      and c = "\<lparr>AddColumnCommand.Name = ''age'', Column = Some ''INT NOT NULL'', After = '''', First = True\<rparr>"]
    AddColumnCommand_toSQL_position [where impl = id and col = "''INT NOT NULL''" and f = False
      and c = "\<lparr>AddColumnCommand.Name = ''age'', Column = Some ''INT NOT NULL'', After = '''', First = False\<rparr>"]
    example_without_FIRST
  by (simp add: AddColumnCommand_toSQL_def buildRow_def)

theorem AddColumnCommand_toSQL_FIRST_counterexample:
  "AddColumnCommand_toSQL id
     \<lparr>AddColumnCommand.Name = ''age'', Column = Some ''INT NOT NULL'', After = ''FIRST'', First = True\<rparr>
     = Inr ''ADD COLUMN `age` INT NOT NULL AFTER FIRST''
 \<and> sublist '' FIRST'' ''ADD COLUMN `age` INT NOT NULL AFTER FIRST''"
proof -
  have "sublist '' FIRST'' (''ADD COLUMN `age` INT NOT NULL AFTER'' @ '' FIRST'')"
    by (rule sublist_append_leftI)
  then show ?thesis
    by (simp add: AddColumnCommand_toSQL_def buildRow_def Let_def)
qed

text \<open>
  C4, as the code has it.  For a well-formed Add Column command with a non-empty After,
  the fragment is \<open>ADD COLUMN `name` definition\<close> followed by \<open>AFTER\<close> and the After
  text as it is given: the code does not wrap it in backticks.
\<close>

theorem AddColumnCommand_toSQL_after:
  assumes "AddColumnCommand.Name c \<noteq> ''''"
    and "AddColumnCommand.Column c = Some col"
    and "impl col \<noteq> ''''"
    and "After c \<noteq> ''''"
  shows "AddColumnCommand_toSQL impl c =
           Inr ((''ADD COLUMN `'' @ AddColumnCommand.Name c @ ''` '' @ impl col)
                  @ '' AFTER '' @ After c)"
  using assms by (simp add: AddColumnCommand_toSQL_def buildRow_def Let_def)

theorem AddColumnCommand_toSQL_after_witness:
  "AddColumnCommand_toSQL id
     \<lparr>AddColumnCommand.Name = ''age'', Column = Some ''INT NOT NULL'', After = ''name'', First = False\<rparr>
     = Inr ''ADD COLUMN `age` INT NOT NULL AFTER name''"
  using AddColumnCommand_toSQL_after [where impl = id and col = "''INT NOT NULL''"
      and c = "\<lparr>AddColumnCommand.Name = ''age'', Column = Some ''INT NOT NULL'', After = ''name'', First = False\<rparr>"]
  by simp

theorem AddColumnCommand_toSQL_after_counterexample:
  "AddColumnCommand_toSQL id
     \<lparr>AddColumnCommand.Name = ''age'', Column = Some ''INT NOT NULL'', After = ''name'', First = False\<rparr>
     \<noteq> Inr ''ADD COLUMN `age` INT NOT NULL AFTER `name`''"
  by (simp add: AddColumnCommand_toSQL_def buildRow_def Let_def)

text \<open>
  C5. An Add Index command with a non-empty name and a non-empty column list renders to
  \<open>ADD KEY `name` (`col1`, `col2`, ...)\<close>: the columns joined with \<open>`, `\<close> between one
  opening and one closing backtick, which is each column wrapped in backticks and the
  wrapped columns joined with a comma and a space.  The name \<open>idx_age\<close> with the columns
  \<open>age\<close> and \<open>name\<close> gives \<open>ADD KEY `idx_age` (`age`, `name`)\<close>.
\<close>

theorem AddIndexCommand_toSQL_wellformed:
  assumes "AddIndexCommand.Name c \<noteq> ''''" and "AddIndexCommand.Columns c \<noteq> []"
  shows "AddIndexCommand_toSQL c =
           ''ADD KEY `'' @ AddIndexCommand.Name c @ ''` (`''
             @ Join (AddIndexCommand.Columns c) ''`, `'' @ ''`)''
       \<and> AddIndexCommand_toSQL c =
           ''ADD KEY `'' @ AddIndexCommand.Name c @ ''` (''
             @ Join (map backticked (AddIndexCommand.Columns c)) '', '' @ '')''"
proof -
  have "AddIndexCommand_toSQL c =
           ''ADD KEY `'' @ AddIndexCommand.Name c @ ''` (`''
             @ Join (AddIndexCommand.Columns c) ''`, `'' @ ''`)''"
    using assms by (simp add: AddIndexCommand_toSQL_def)
  moreover have "''ADD KEY `'' @ AddIndexCommand.Name c @ ''` (`''
             @ Join (AddIndexCommand.Columns c) ''`, `'' @ ''`)''
       = ''ADD KEY `'' @ AddIndexCommand.Name c @ ''` (''
             @ (''`'' @ Join (AddIndexCommand.Columns c) ''`, `'' @ ''`'') @ '')''"
    by simp
  ultimately show ?thesis
    using Join_backticked [OF assms(2)] by simp
qed

theorem AddIndexCommand_toSQL_wellformed_witness:
  "AddIndexCommand_toSQL \<lparr>AddIndexCommand.Name = ''idx_age'', Columns = [''age'', ''name'']\<rparr>
     = ''ADD KEY `idx_age` (`age`, `name`)''"
  using AddIndexCommand_toSQL_wellformed
    [of "\<lparr>AddIndexCommand.Name = ''idx_age'', Columns = [''age'', ''name'']\<rparr>"]
  by simp

text \<open>
  C6. The fragment of an Add Foreign Key command is \<open>ADD\<close>, a space and the descriptor's
  render when that render is non-empty, and the empty string when it is empty.
\<close>

theorem AddForeignCommand_toSQL_cases:
  "(render (Foreign c) \<noteq> '''' \<longrightarrow>
      toSQL impl render (AddForeign c) = Inr (''ADD '' @ render (Foreign c)))
 \<and> (render (Foreign c) = '''' \<longrightarrow> toSQL impl render (AddForeign c) = Inr '''')"
  by (simp add: AddForeignCommand_toSQL_def)

theorem AddForeignCommand_toSQL_cases_witness:
  "toSQL id id (AddForeign \<lparr>Foreign = ''FOREIGN KEY (`a`) REFERENCES `t` (`id`)''\<rparr>
      :: (string, string) command)
     = Inr ''ADD FOREIGN KEY (`a`) REFERENCES `t` (`id`)''
 \<and> toSQL id id (AddForeign \<lparr>Foreign = ''''\<rparr> :: (string, string) command) = Inr ''''"
  using
    AddForeignCommand_toSQL_cases [where impl = id and render = id
      and c = "\<lparr>Foreign = ''FOREIGN KEY (`a`) REFERENCES `t` (`id`)''\<rparr>"]
    AddForeignCommand_toSQL_cases [where impl = id and render = id
      and c = "\<lparr>Foreign = ''''\<rparr>"]
  by simp

text \<open>
  C7. Rendering an empty command list raises no error and returns the empty string.
\<close>

theorem TableCommands_toSQL_empty: "TableCommands_toSQL impl render [] = Inr ''''"
  by (simp add: TableCommands_toSQL_def)

text \<open>
  C8. Rendering a list of one command gives that command's fragment, and for two non-empty
  lists the render of their concatenation is the render of the first, a comma and a space,
  and the render of the second.
\<close>

theorem TableCommands_toSQL_homomorphism:
  "TableCommands_toSQL impl render [c] = toSQL impl render c
 \<and> (xs \<noteq> [] \<and> ys \<noteq> [] \<longrightarrow>
      (\<exists>a b. TableCommands_toSQL impl render xs = Inr a
           \<and> TableCommands_toSQL impl render ys = Inr b
           \<and> TableCommands_toSQL impl render (xs @ ys) = Inr (a @ '', '' @ b)))"
proof -
  obtain s where s: "toSQL impl render c = Inr s"
    using toSQL_Inr by blast
  have single: "TableCommands_toSQL impl render [c] = toSQL impl render c"
    by (simp add: TableCommands_toSQL_def s)
  have "TableCommands_toSQL impl render (xs @ ys) =
      Inr (Join (map (\<lambda>c. projr (toSQL impl render c)) xs) '', '' @ '', ''
           @ Join (map (\<lambda>c. projr (toSQL impl render c)) ys) '', '')"
    if "xs \<noteq> []" "ys \<noteq> []"
    using that by (simp add: TableCommands_toSQL_map Join_append)
  then show ?thesis
    using single by (simp add: TableCommands_toSQL_map)
qed

theorem TableCommands_toSQL_homomorphism_witness:
  "TableCommands_toSQL id id [DropColumn ''a'' :: (string, string) command] = Inr ''DROP COLUMN `a`''
 \<and> TableCommands_toSQL id id [DropColumn ''a'', DropIndex '''' :: (string, string) command]
     = Inr ''DROP COLUMN `a`, ''
 \<and> TableCommands_toSQL id id [DropPrimaryIndex () :: (string, string) command]
     = Inr ''DROP PRIMARY KEY''
 \<and> TableCommands_toSQL id id
     ([DropColumn ''a'', DropIndex ''''] @ [DropPrimaryIndex () :: (string, string) command])
     = Inr (''DROP COLUMN `a`, '' @ '', '' @ ''DROP PRIMARY KEY'')"
  using TableCommands_toSQL_homomorphism [where impl = id and render = id
      and c = "DropColumn ''a'' :: (string, string) command"
      and xs = "[DropColumn ''a'', DropIndex '''' :: (string, string) command]"
      and ys = "[DropPrimaryIndex () :: (string, string) command]"]
  by (simp add: TableCommands_toSQL_def DropColumnCommand_toSQL_def DropIndexCommand_toSQL_def
        DropPrimaryIndexCommand_toSQL_def)

text \<open>
  C9. The column names of an Add Index or Add Unique Index command are not validated: with
  a non-empty name or key and a non-empty column list the fragment is non-empty, and when
  an empty string is among the columns the fragment contains an empty pair of backticks.
  The name \<open>n\<close> with the empty string as its only column gives \<open>ADD KEY `n` (``)\<close>.
\<close>

theorem index_columns_not_validated:
  "(AddIndexCommand.Name a \<noteq> '''' \<and> AddIndexCommand.Columns a \<noteq> [] \<longrightarrow>
      AddIndexCommand_toSQL a \<noteq> ''''
      \<and> ('''' \<in> set (AddIndexCommand.Columns a) \<longrightarrow> sublist ''``'' (AddIndexCommand_toSQL a)))
 \<and> (Key u \<noteq> '''' \<and> AddUniqueIndexCommand.Columns u \<noteq> [] \<longrightarrow>
      AddUniqueIndexCommand_toSQL u \<noteq> ''''
      \<and> ('''' \<in> set (AddUniqueIndexCommand.Columns u) \<longrightarrow>
            sublist ''``'' (AddUniqueIndexCommand_toSQL u)))"
proof -
  have grp: "sublist ''``'' (p @ ''`'' @ Join cols ''`, `'' @ ''`'' @ q)"
    if "'''' \<in> set cols" for p q :: string and cols
  proof -
    have "sublist ''``'' (p @ (''`'' @ Join cols ''`, `'' @ ''`'') @ q)"
      using empty_column_backticks [OF that] sublist_append by blast
    then show ?thesis by simp
  qed
  have a: "sublist ''``'' (AddIndexCommand_toSQL a)"
    if "AddIndexCommand.Name a \<noteq> ''''" "AddIndexCommand.Columns a \<noteq> []"
       "'''' \<in> set (AddIndexCommand.Columns a)"
    using that grp [of "AddIndexCommand.Columns a" "''ADD KEY `'' @ AddIndexCommand.Name a @ ''` (''" "'')''"]
    by (simp add: AddIndexCommand_toSQL_def)
  have u: "sublist ''``'' (AddUniqueIndexCommand_toSQL u)"
    if "Key u \<noteq> ''''" "AddUniqueIndexCommand.Columns u \<noteq> []"
       "'''' \<in> set (AddUniqueIndexCommand.Columns u)"
    using that grp [of "AddUniqueIndexCommand.Columns u" "''ADD UNIQUE KEY `'' @ Key u @ ''` (''" "'')''"]
    by (simp add: AddUniqueIndexCommand_toSQL_def)
  show ?thesis
    using a u by (simp add: AddIndexCommand_toSQL_def AddUniqueIndexCommand_toSQL_def)
qed

theorem index_columns_not_validated_witness:
  "AddIndexCommand_toSQL \<lparr>AddIndexCommand.Name = ''n'', Columns = ['''']\<rparr> = ''ADD KEY `n` (``)''
 \<and> sublist ''``'' (AddIndexCommand_toSQL \<lparr>AddIndexCommand.Name = ''n'', Columns = ['''']\<rparr>)
 \<and> AddUniqueIndexCommand_toSQL \<lparr>Key = ''n'', Columns = [''a'', '''']\<rparr> = ''ADD UNIQUE KEY `n` (`a`, ``)''
 \<and> sublist ''``'' (AddUniqueIndexCommand_toSQL \<lparr>Key = ''n'', Columns = [''a'', '''']\<rparr>)"
  using index_columns_not_validated
    [of "\<lparr>AddIndexCommand.Name = ''n'', Columns = ['''']\<rparr>" "\<lparr>Key = ''n'', Columns = [''a'', '''']\<rparr>"]
  by (simp add: AddIndexCommand_toSQL_def AddUniqueIndexCommand_toSQL_def)

text \<open>
  C10. The self-render of every command of every variant returns a string and never
  panics: in Add Column, Modify Column and Change Column the nil check comes before
  the calls of \<open>buildRow\<close>, so the method is never called on a nil column definition.
\<close>

theorem toSQL_total: "\<exists>s. toSQL impl render c = Inr s"
  by (rule toSQL_Inr)

end
